theory Spec2Isabelle
  imports Main "HOL-Library.Monad_Syntax"
begin

section \<open>Text: characters, classes and the string methods used\<close>

text \<open>
  Python strings are modelled as \<^typ>\<open>string\<close>, one \<^typ>\<open>char\<close> per code point. The ASCII
  code points are the chars below 0x80. Four code points outside ASCII are modelled as
  well, because Python's case mappings tie them to ASCII letters, which matters to
  \<^verbatim>\<open>re.IGNORECASE\<close> and to \<^verbatim>\<open>str.upper\<close>: U+0130 (capital I with dot above), U+0131
  (dotless i), U+017F (long s) and U+212A (the Kelvin sign). They are written as the
  chars 0x80 to 0x83; no other code point above U+007F is modelled. The character
  classes below are those of Python's \<^verbatim>\<open>str\<close> methods and of \<^verbatim>\<open>re\<close> on these code points.
  Whitespace is what \<^verbatim>\<open>str.isspace\<close> accepts there: TAB, LF, VT, FF, CR, the four
  separators 0x1C..0x1F and the space.
\<close>

definition U0130 :: char where
  "U0130 = CHR 0x80"

definition U0131 :: char where
  "U0131 = CHR 0x81"

definition U017F :: char where
  "U017F = CHR 0x82"

definition U212A :: char where
  "U212A = CHR 0x83"


definition is_space :: "char \<Rightarrow> bool" where
  "is_space c = (let n = (of_char c :: nat) in (9 \<le> n \<and> n \<le> 13) \<or> (28 \<le> n \<and> n \<le> 32))"

definition is_digit :: "char \<Rightarrow> bool" where
  "is_digit c = (let n = (of_char c :: nat) in 48 \<le> n \<and> n \<le> 57)"

definition is_lower :: "char \<Rightarrow> bool" where
  "is_lower c = (let n = (of_char c :: nat) in 97 \<le> n \<and> n \<le> 122)"

definition is_upper :: "char \<Rightarrow> bool" where
  "is_upper c = (let n = (of_char c :: nat) in 65 \<le> n \<and> n \<le> 90)"

text \<open>
  \<open>is_lower\<close> and \<open>is_upper\<close> are the ASCII ranges \<open>a-z\<close> and \<open>A-Z\<close>; \<^verbatim>\<open>str.isalpha\<close> accepts the
  four other letters too.
\<close>

definition is_alpha :: "char \<Rightarrow> bool" where
  "is_alpha c = (is_lower c \<or> is_upper c \<or> c = U0130 \<or> c = U0131 \<or> c = U017F \<or> c = U212A)"

text \<open>The class \<^verbatim>\<open>\w\<close>: letters, digits and the underscore.\<close>

definition is_word :: "char \<Rightarrow> bool" where
  "is_word c = (is_alpha c \<or> is_digit c \<or> c = CHR ''_'')"

text \<open>
  \<^verbatim>\<open>str.upper\<close> on one character: dotless i becomes \<open>I\<close> and long s becomes \<open>S\<close>; U+0130
  and U+212A are upper-case already and stay.
\<close>

definition upper_char :: "char \<Rightarrow> char" where
  "upper_char c =
     (if is_lower c then char_of ((of_char c :: nat) - 32)
      else if c = U0131 then CHR ''I'' else if c = U017F then CHR ''S'' else c)"

text \<open>
  The lower-case mapping that \<^verbatim>\<open>re.IGNORECASE\<close> applies to a character of the text: U+0130
  becomes \<open>i\<close> and U+212A becomes \<open>k\<close>.
\<close>

definition lower_char :: "char \<Rightarrow> char" where
  "lower_char c =
     (if is_upper c then char_of ((of_char c :: nat) + 32)
      else if c = U0130 then CHR ''i'' else if c = U212A then CHR ''k'' else c)"

text \<open>
  The other lower-case characters that \<^verbatim>\<open>re.IGNORECASE\<close> treats as the same letter:
  \<open>i\<close> and dotless i, \<open>s\<close> and long s.
\<close>

definition case_fixes :: "char \<Rightarrow> char list" where
  "case_fixes lo =
     (if lo = CHR ''i'' then [U0131] else if lo = U0131 then [CHR ''i'']
      else if lo = CHR ''s'' then [U017F] else if lo = U017F then [CHR ''s''] else [])"

text \<open>
  A character \<open>x\<close> of the text matches the pattern character \<open>c\<close> under
  \<^verbatim>\<open>re.IGNORECASE\<close>: the lower-cased \<open>x\<close> is the lower-cased \<open>c\<close> or one of its
  equivalents.
\<close>

definition ci_match :: "char \<Rightarrow> char \<Rightarrow> bool" where
  "ci_match c x = (lower_char x = lower_char c \<or> lower_char x \<in> set (case_fixes (lower_char c)))"

definition py_upper :: "string \<Rightarrow> string" where
  "py_upper s = map upper_char s"

definition py_strip :: "string \<Rightarrow> string" where
  "py_strip s = rev (dropWhile is_space (rev (dropWhile is_space s)))"

definition py_isalpha :: "string \<Rightarrow> bool" where
  "py_isalpha s = (s \<noteq> [] \<and> list_all is_alpha s)"

text \<open>
  \<^verbatim>\<open>s.replace(old, new)\<close>: every occurrence of \<open>old\<close>, left to right, without overlap.
  The program only calls it with a non-empty constant \<open>old\<close>.
\<close>

function py_replace :: "string \<Rightarrow> string \<Rightarrow> string \<Rightarrow> string" where
  "py_replace old new s =
     (if s = [] \<or> old = [] then s
      else if take (length old) s = old then new @ py_replace old new (drop (length old) s)
      else hd s # py_replace old new (tl s))"
  by pat_completeness auto
termination
  by (relation "measure (\<lambda>(old, new, s). length s)") auto

text \<open>\<^verbatim>\<open>s.split(",")\<close>: the segments between the separators, empty ones kept.\<close>

fun py_split_on :: "char \<Rightarrow> string \<Rightarrow> string list" where
  "py_split_on sep [] = [[]]"
| "py_split_on sep (c # cs) =
     (if c = sep then [] # py_split_on sep cs
      else (case py_split_on sep cs of [] \<Rightarrow> [[c]] | w # ws \<Rightarrow> (c # w) # ws))"

text \<open>\<^verbatim>\<open>s.split()\<close>: the maximal runs of non-whitespace characters.\<close>

fun py_split_ws_acc :: "string \<Rightarrow> string \<Rightarrow> string list" where
  "py_split_ws_acc w [] = (if w = [] then [] else [rev w])"
| "py_split_ws_acc w (c # cs) =
     (if is_space c then (if w = [] then py_split_ws_acc [] cs else rev w # py_split_ws_acc [] cs)
      else py_split_ws_acc (c # w) cs)"

definition py_split_ws :: "string \<Rightarrow> string list" where
  "py_split_ws s = py_split_ws_acc [] s"

fun py_join :: "string \<Rightarrow> string list \<Rightarrow> string" where
  "py_join sep [] = []"
| "py_join sep [w] = w"
| "py_join sep (w # ws) = w @ sep @ py_join sep ws"

text \<open>
  Indexing a list raises \<^verbatim>\<open>IndexError\<close> out of range; a negative index counts from
  the end. \<open>None\<close> is the exception.
\<close>

definition py_index :: "'a list \<Rightarrow> int \<Rightarrow> 'a option" where
  "py_index xs i =
     (let n = int (length xs); j = (if i < 0 then n + i else i)
      in if 0 \<le> j \<and> j < n then Some (xs ! nat j) else None)"

section \<open>Regular expressions\<close>

text \<open>
  The patterns of the program are terms of \<open>re\<close>, and \<open>ms\<close> is the backtracking matcher
  of Python's \<^verbatim>\<open>re\<close> module: from a position it lists every way the pattern can match,
  in the order in which backtracking tries them, so the head of the list is the match
  Python reports. A position is the text before it (reversed), the text after it, and
  the groups captured so far. Repetition is needed over single characters only.
\<close>

datatype re =
    Cls "char \<Rightarrow> bool"
  | Seq re re
  | Alt re re
  | Opt re
  | Star "char \<Rightarrow> bool"
  | WordB
  | Eos
  | Grp string re
  | Eps

type_synonym mstate = "string \<times> string \<times> (string \<times> string) list"

text \<open>\<^verbatim>\<open>\b\<close>: exactly one of the two neighbours is a word character.\<close>

fun at_boundary :: "string \<Rightarrow> string \<Rightarrow> bool" where
  "at_boundary [] [] = False"
| "at_boundary [] (c # cs) = is_word c"
| "at_boundary (p # ps) [] = is_word p"
| "at_boundary (p # ps) (c # cs) = (is_word p \<noteq> is_word c)"

fun ms :: "re \<Rightarrow> mstate \<Rightarrow> mstate list" where
  "ms (Cls p) (pre, [], g) = []"
| "ms (Cls p) (pre, c # cs, g) = (if p c then [(c # pre, cs, g)] else [])"
| "ms (Seq a b) st = concat (map (ms b) (ms a st))"
| "ms (Alt a b) st = ms a st @ ms b st"
| "ms (Opt a) st = ms a st @ [st]"
| "ms (Star p) (pre, [], g) = [(pre, [], g)]"
| "ms (Star p) (pre, c # cs, g) =
     (if p c then ms (Star p) (c # pre, cs, g) @ [(pre, c # cs, g)] else [(pre, c # cs, g)])"
| "ms WordB (pre, rest, g) = (if at_boundary pre rest then [(pre, rest, g)] else [])"
| "ms Eos (pre, rest, g) = (if rest = [] \<or> rest = [CHR 0x0A] then [(pre, rest, g)] else [])"
| "ms (Grp name a) (pre, rest, g) =
     map (\<lambda>(pre', rest', g'). (pre', rest', g' @ [(name, rev (take (length pre' - length pre) pre'))]))
       (ms a (pre, rest, g))"
| "ms Eps st = [st]"

definition seqs :: "re list \<Rightarrow> re" where
  "seqs rs = foldr Seq rs Eps"

definition Fail :: re where
  "Fail = Cls (\<lambda>c. False)"

definition alts :: "re list \<Rightarrow> re" where
  "alts rs = foldr Alt rs Fail"

definition Plus :: "(char \<Rightarrow> bool) \<Rightarrow> re" where
  "Plus p = Seq (Cls p) (Star p)"

text \<open>A literal string, and a literal under \<^verbatim>\<open>re.IGNORECASE\<close>.\<close>

definition lit :: "string \<Rightarrow> re" where
  "lit s = seqs (map (\<lambda>c. Cls (\<lambda>x. x = c)) s)"

definition lit_ci :: "string \<Rightarrow> re" where
  "lit_ci s = seqs (map (\<lambda>c. Cls (ci_match c)) s)"

record re_match =
  m_before :: string
  m_after :: string
  m_groups :: "(string \<times> string) list"

text \<open>
  \<^verbatim>\<open>pattern.search(s)\<close>: the match at the leftmost position that has one.
  \<open>m_before\<close> is \<^verbatim>\<open>s[:m.start()]\<close> and \<open>m_after\<close> is \<^verbatim>\<open>s[m.end():]\<close>.
\<close>

fun search_from :: "re \<Rightarrow> string \<Rightarrow> string \<Rightarrow> re_match option" where
  "search_from r pre [] =
     (case ms r (pre, [], []) of [] \<Rightarrow> None
      | (pre', rest', g) # _ \<Rightarrow> Some \<lparr>m_before = rev pre, m_after = rest', m_groups = g\<rparr>)"
| "search_from r pre (c # cs) =
     (case ms r (pre, c # cs, []) of [] \<Rightarrow> search_from r (c # pre) cs
      | (pre', rest', g) # _ \<Rightarrow> Some \<lparr>m_before = rev pre, m_after = rest', m_groups = g\<rparr>)"

definition re_search :: "re \<Rightarrow> string \<Rightarrow> re_match option" where
  "re_search r s = search_from r [] s"

text \<open>
  \<^verbatim>\<open>m.group(name)\<close>. Every group the program reads takes part in every match of its
  pattern, so the empty default is never returned.
\<close>

definition group :: "re_match \<Rightarrow> string \<Rightarrow> string" where
  "group m name = (case map_of (m_groups m) name of None \<Rightarrow> [] | Some v \<Rightarrow> v)"

text \<open>
  \<^verbatim>\<open>pattern.sub(repl, s)\<close> with a constant replacement: the matches are taken left to
  right without overlap; an empty match is replaced and the scan moves on by one
  character.
\<close>

function sub_from :: "re \<Rightarrow> string \<Rightarrow> string \<Rightarrow> string \<Rightarrow> string" where
  "sub_from r repl pre rest =
     (if rest = [] then (if ms r (pre, [], []) = [] then [] else repl)
      else (case ms r (pre, rest, []) of
              [] \<Rightarrow> hd rest # sub_from r repl (hd rest # pre) (tl rest)
            | (pre', rest', g) # _ \<Rightarrow>
                (let n = length rest - length rest' in
                 if n = 0 then repl @ hd rest # sub_from r repl (hd rest # pre) (tl rest)
                 else repl @ sub_from r repl (rev (take n rest) @ pre) (drop n rest))))"
  by pat_completeness auto
termination
  by (relation "measure (\<lambda>(r, repl, pre, rest). length rest)") auto

definition re_sub :: "re \<Rightarrow> string \<Rightarrow> string \<Rightarrow> string" where
  "re_sub r repl s = sub_from r repl [] s"

section \<open>The tables and patterns of the three modules\<close>

text \<open>
  The normalization code exists in three copies: \<^verbatim>\<open>address_standardizer_with_usps.py\<close>,
  \<^verbatim>\<open>address_standardizer.py\<close> and the full-address parser (the second script in
  \<^verbatim>\<open>address_standardizer_with_usps.py\<close>, from its second \<^verbatim>\<open>#!\<close> line on). The functions
  read the tables as module globals; here a module's tables are a record that the
  functions take as an argument. A Python dict iterates in insertion order, so a table
  is the list of its entries as written.
\<close>

record module_tables =
  SUFFIX_MAP :: "(string \<times> string) list"
  DIR_MAP :: "(string \<times> string) list"
  STATE_MAP :: "(string \<times> string) list"

definition dir_map :: "(string \<times> string) list" where
  "dir_map =
    [
     (''NORTH'', ''N''), (''SOUTH'', ''S''), (''EAST'', ''E''), (''WEST'', ''W''),
     (''NORTHEAST'', ''NE''), (''NORTHWEST'', ''NW''), (''SOUTHEAST'', ''SE''), (''SOUTHWEST'', ''SW''),
     (''N.'', ''N''), (''S.'', ''S''), (''E.'', ''E''), (''W.'', ''W'')
    ]"

definition state_map_full :: "(string \<times> string) list" where
  "state_map_full =
    [
     (''ALABAMA'', ''AL''), (''ALASKA'', ''AK''), (''ARIZONA'', ''AZ''), (''ARKANSAS'', ''AR''),
     (''CALIFORNIA'', ''CA''), (''COLORADO'', ''CO''), (''CONNECTICUT'', ''CT''), (''DELAWARE'', ''DE''),
     (''DISTRICT OF COLUMBIA'', ''DC''), (''FLORIDA'', ''FL''), (''GEORGIA'', ''GA''), (''HAWAII'', ''HI''),
     (''IDAHO'', ''ID''), (''ILLINOIS'', ''IL''), (''INDIANA'', ''IN''), (''IOWA'', ''IA''),
     (''KANSAS'', ''KS''), (''KENTUCKY'', ''KY''), (''LOUISIANA'', ''LA''), (''MAINE'', ''ME''),
     (''MARYLAND'', ''MD''), (''MASSACHUSETTS'', ''MA''), (''MICHIGAN'', ''MI''), (''MINNESOTA'', ''MN''),
     (''MISSISSIPPI'', ''MS''), (''MISSOURI'', ''MO''), (''MONTANA'', ''MT''), (''NEBRASKA'', ''NE''),
     (''NEVADA'', ''NV''), (''NEW HAMPSHIRE'', ''NH''), (''NEW JERSEY'', ''NJ''), (''NEW MEXICO'', ''NM''),
     (''NEW YORK'', ''NY''), (''NORTH CAROLINA'', ''NC''), (''NORTH DAKOTA'', ''ND''), (''OHIO'', ''OH''),
     (''OKLAHOMA'', ''OK''), (''OREGON'', ''OR''), (''PENNSYLVANIA'', ''PA''), (''RHODE ISLAND'', ''RI''),
     (''SOUTH CAROLINA'', ''SC''), (''SOUTH DAKOTA'', ''SD''), (''TENNESSEE'', ''TN''), (''TEXAS'', ''TX''),
     (''UTAH'', ''UT''), (''VERMONT'', ''VT''), (''VIRGINIA'', ''VA''), (''WASHINGTON'', ''WA''),
     (''WEST VIRGINIA'', ''WV''), (''WISCONSIN'', ''WI''), (''WYOMING'', ''WY''), (''PUERTO RICO'', ''PR''),
     (''GUAM'', ''GU''), (''VIRGIN ISLANDS'', ''VI''), (''AMERICAN SAMOA'', ''AS'')
    ]"

definition suffix_map_full :: "(string \<times> string) list" where
  "suffix_map_full =
    [
     (''ALLEE'', ''ALY''), (''ALLEY'', ''ALY''), (''ALLY'', ''ALY''), (''ANEX'', ''ANX''),
     (''ANNEX'', ''ANX''), (''ARCADE'', ''ARC''), (''AVENUE'', ''AVE''), (''AVEN'', ''AVE''),
     (''AVN'', ''AVE''), (''BAYOU'', ''BYU''), (''BEACH'', ''BCH''), (''BEND'', ''BND''),
     (''BLUFF'', ''BLF''), (''BOULEVARD'', ''BLVD''), (''BOUL'', ''BLVD''), (''BRANCH'', ''BR''),
     (''BRIDGE'', ''BRG''), (''BROOK'', ''BRK''), (''BURG'', ''BG''), (''BYPASS'', ''BYP''),
     (''CAMP'', ''CP''), (''CANYON'', ''CYN''), (''CAPE'', ''CPE''), (''CAUSEWAY'', ''CSWY''),
     (''CENTER'', ''CTR''), (''CIRCLE'', ''CIR''), (''CLIFF'', ''CLF''), (''CLUB'', ''CLB''),
     (''COMMON'', ''CMN''), (''CORNER'', ''COR''), (''COURSE'', ''CRSE''), (''COURT'', ''CT''),
     (''COVE'', ''CV''), (''CREEK'', ''CRK''), (''CRESCENT'', ''CRES''), (''CROSSING'', ''XING''),
     (''DALE'', ''DL''), (''DAM'', ''DM''), (''DIVIDE'', ''DV''), (''DRIVE'', ''DR''),
     (''ESTATE'', ''EST''), (''EXPRESSWAY'', ''EXPY''), (''EXTENSION'', ''EXT''), (''FALLS'', ''FLS''),
     (''FERRY'', ''FRY''), (''FIELD'', ''FLD''), (''FLAT'', ''FLT''), (''FORD'', ''FRD''),
     (''FOREST'', ''FRST''), (''FORGE'', ''FGR''), (''FORWARD'', ''FWD''), (''GARDEN'', ''GDN''),
     (''GATEWAY'', ''GTWY''), (''GLEN'', ''GLN''), (''GREEN'', ''GRN''), (''GROVE'', ''GRV''),
     (''HARBOR'', ''HBR''), (''HAVEN'', ''HVN''), (''HEIGHTS'', ''HTS''), (''HIGHWAY'', ''HWY''),
     (''HILL'', ''HL''), (''HOLLOW'', ''HOLW''), (''INLET'', ''INLT''), (''ISLAND'', ''IS''),
     (''ISLE'', ''ISLE''), (''JUNCTION'', ''JCT''), (''KEY'', ''KY''), (''KNOLL'', ''KNL''),
     (''LAKE'', ''LK''), (''LANDING'', ''LNDG''), (''LANE'', ''LN''), (''LIGHT'', ''LGT''),
     (''LOAF'', ''LF''), (''LOCK'', ''LCK''), (''LODGE'', ''LDG''), (''LOOP'', ''LOOP''),
     (''MALL'', ''MALL''), (''MANOR'', ''MNR''), (''MEADOW'', ''MDW''), (''MILL'', ''ML''),
     (''MOUNT'', ''MT''), (''MOUNTAIN'', ''MTN''), (''NORTH'', ''N''), (''PARK'', ''PARK''),
     (''PARKWAY'', ''PKWY''), (''PASS'', ''PASS''), (''PASSAGE'', ''PSGE''), (''PATH'', ''PATH''),
     (''PIKE'', ''PIKE''), (''PINE'', ''PNE''), (''PLACE'', ''PL''), (''PLAZA'', ''PLZ''),
     (''POINT'', ''PT''), (''PORT'', ''PRT''), (''PRAIRIE'', ''PR''), (''RADIAL'', ''RADL''),
     (''RANCH'', ''RNCH''), (''RAPIDS'', ''RPD''), (''REST'', ''RST''), (''RIDGE'', ''RDG''),
     (''RIVER'', ''RIV''), (''ROAD'', ''RD''), (''ROW'', ''ROW''), (''RUN'', ''RUN''),
     (''SHORE'', ''SHR''), (''SPRING'', ''SPG''), (''SQUARE'', ''SQ''), (''STATION'', ''STA''),
     (''STRAVENUE'', ''STRA''), (''STREAM'', ''STRM''), (''STREET'', ''ST''), (''SUMMIT'', ''SMT''),
     (''TERRACE'', ''TER''), (''TRACE'', ''TRCE''), (''TRAIL'', ''TRL''), (''TUNNEL'', ''TUNL''),
     (''TURNPIKE'', ''TPKE''), (''UNION'', ''UN''), (''VALLEY'', ''VLY''), (''VIEW'', ''VW''),
     (''VILLAGE'', ''VLG''), (''VILLE'', ''VL''), (''WALK'', ''WALK''), (''WALL'', ''WALL''),
     (''WAY'', ''WAY''), (''WELL'', ''WL'')
    ]"

definition suffix_map_compact :: "(string \<times> string) list" where
  "suffix_map_compact =
    [
     (''STREET'', ''ST''), (''AVENUE'', ''AVE''), (''ROAD'', ''RD''), (''DRIVE'', ''DR''),
     (''BOULEVARD'', ''BLVD''), (''COURT'', ''CT''), (''LANE'', ''LN''), (''TERRACE'', ''TER''),
     (''PLACE'', ''PL''), (''CIRCLE'', ''CIR'')
    ]"

definition state_map_parser :: "(string \<times> string) list" where
  "state_map_parser =
    [
     (''ALABAMA'', ''AL''), (''ALASKA'', ''AK''), (''ARIZONA'', ''AZ''), (''ARKANSAS'', ''AR''),
     (''CALIFORNIA'', ''CA''), (''NEW YORK'', ''NY''), (''TEXAS'', ''TX''), (''FLORIDA'', ''FL''),
     (''ILLINOIS'', ''IL''), (''WASHINGTON'', ''WA'')
    ]"

text \<open>\<^verbatim>\<open>address_standardizer_with_usps.py\<close>, lines 56 to 104.\<close>

definition usps_tables :: module_tables where
  "usps_tables = \<lparr>SUFFIX_MAP = suffix_map_full, DIR_MAP = dir_map, STATE_MAP = state_map_full\<rparr>"


text \<open>The full-address parser, lines 578 to 591 of \<^verbatim>\<open>address_standardizer_with_usps.py\<close>.\<close>

definition parser_tables :: module_tables where
  "parser_tables = \<lparr>SUFFIX_MAP = suffix_map_compact, DIR_MAP = dir_map, STATE_MAP = state_map_parser\<rparr>"

definition UNIT_DESIGNATORS :: "string list" where
  "UNIT_DESIGNATORS =
     [''APT'', ''APARTMENT'', ''UNIT'', ''STE'', ''SUITE'', ''FL'', ''FLOOR'', ''RM'', ''ROOM'', ''#'']"

text \<open>\<^verbatim>\<open>[^\w\s#-]\<close>\<close>

definition non_alnum :: "char \<Rightarrow> bool" where
  "non_alnum c = (\<not> (is_word c \<or> is_space c \<or> c = CHR ''#'' \<or> c = CHR ''-''))"

definition NON_ALNUM_RE :: re where
  "NON_ALNUM_RE = Cls non_alnum"

text \<open>\<^verbatim>\<open>\s+\<close>\<close>

definition MULTISPACE_RE :: re where
  "MULTISPACE_RE = Plus is_space"

text \<open>\<^verbatim>\<open>\bP\.?O\.?\s*BOX\b\<close>, ignoring case\<close>

definition POBOX_RE :: re where
  "POBOX_RE = seqs [WordB, lit_ci ''P'', Opt (lit ''.''), lit_ci ''O'', Opt (lit ''.''),
     Star is_space, lit_ci ''BOX'', WordB]"

text \<open>
  \<^verbatim>\<open>[A-Z0-9-]\<close>, ignoring case: the lower-cased character is in \<open>a-z\<close>, is dotless i or
  long s (the equivalents of \<open>i\<close> and \<open>s\<close>), a digit or \<open>-\<close>.
\<close>

definition unit_value_char :: "char \<Rightarrow> bool" where
  "unit_value_char c =
     (let l = lower_char c
      in is_lower l \<or> l = U0131 \<or> l = U017F \<or> is_digit l \<or> l = CHR ''-'')"

text \<open>
  The designator group \<^verbatim>\<open>(?P<designator>(APT|APARTMENT|...|\#))\<close> followed by
  \<^verbatim>\<open>\.?\s*#?:?\s*(?P<value>[A-Z0-9-]+)\<close>, shared by the two unit patterns. The inner,
  unnamed group is never read and is not recorded.
\<close>

definition designator_value :: "re list" where
  "designator_value =
     [Grp ''designator'' (alts (map lit_ci UNIT_DESIGNATORS)),
      Opt (lit ''.''), Star is_space, Opt (lit ''#''), Opt (lit '':''), Star is_space,
      Grp ''value'' (Plus unit_value_char)]"

definition trailing_unit_re :: re where
  "trailing_unit_re = seqs ([WordB] @ designator_value @ [Eos])"

definition mid_unit_re :: re where
  "mid_unit_re =
     seqs ([Alt (lit '','') (Cls is_space), Star is_space] @ designator_value @ [WordB])"

text \<open>\<^verbatim>\<open>(\d{5}(?:-\d{4})?)\b\<close>\<close>

definition zip_re :: re where
  "zip_re = seqs [Grp ''1'' (seqs [seqs (replicate 5 (Cls is_digit)),
     Opt (seqs [lit ''-'', seqs (replicate 4 (Cls is_digit))])]), WordB]"

text \<open>\<^verbatim>\<open>r"\b" + re.escape(word) + r"\b"\<close>\<close>

definition word_re :: "string \<Rightarrow> re" where
  "word_re w = seqs [WordB, lit w, WordB]"

section \<open>The component standardizers\<close>

text \<open>
  The helpers below are the same text in the three modules, up to the tables they read.
  An absent value (\<^verbatim>\<open>None\<close>) of an \<^verbatim>\<open>Optional[str]\<close> argument is \<open>None\<close>.
\<close>

definition upper_and_cleanup :: "string option \<Rightarrow> string" where
  "upper_and_cleanup text =
     (case text of
        None \<Rightarrow> []
      | Some t \<Rightarrow>
          if t = [] then []
          else re_sub MULTISPACE_RE '' '' (re_sub NON_ALNUM_RE [] (py_upper (py_strip t))))"

text \<open>\<^verbatim>\<open>[^\w\s]\<close> and \<^verbatim>\<open>[^\d]\<close>\<close>

definition non_word_space :: "char \<Rightarrow> bool" where
  "non_word_space c = (\<not> (is_word c \<or> is_space c))"

definition non_digit :: "char \<Rightarrow> bool" where
  "non_digit c = (\<not> is_digit c)"

definition standardize_state :: "module_tables \<Rightarrow> string \<Rightarrow> string" where
  "standardize_state tb state =
     (if state = [] then []
      else
        let s = py_upper (py_strip state) in
        if length s = 2 \<and> py_isalpha s then s
        else
          let s_clean = py_strip (re_sub MULTISPACE_RE '' '' (re_sub (Cls non_word_space) [] s)) in
          (case map_of (STATE_MAP tb) s_clean of
             Some code \<Rightarrow> code
           | None \<Rightarrow>
               let s_alt = py_replace '' STATE'' [] s_clean in
               (case map_of (STATE_MAP tb) s_alt of
                  Some code \<Rightarrow> code
                | None \<Rightarrow> s)))"

definition standardize_zip :: "string \<Rightarrow> string" where
  "standardize_zip zip_code =
     (if zip_code = [] then []
      else
        let z = re_sub (Cls non_digit) [] zip_code in
        if length z = 9 then take 5 z @ ''-'' @ drop 5 z
        else if length z = 5 then z
        else if z \<noteq> [] then z else py_strip zip_code)"

definition replace_suffixes_and_dirs :: "module_tables \<Rightarrow> string \<Rightarrow> string" where
  "replace_suffixes_and_dirs tb s =
     (if s = [] then s
      else
        let s1 = foldl (\<lambda>acc (long_dir, short_dir). re_sub (word_re long_dir) short_dir acc) s (DIR_MAP tb);
            s2 = foldl (\<lambda>acc (long_suf, abb). re_sub (word_re long_suf) abb acc) s1 (SUFFIX_MAP tb)
        in py_strip (re_sub MULTISPACE_RE '' '' s2))"

text \<open>Only \<^verbatim>\<open>address_standardizer_with_usps.py\<close> has this helper (lines 161 to 167).\<close>

definition normalize_po_box :: "string \<Rightarrow> string" where
  "normalize_po_box address =
     (if address = [] then address
      else py_strip (re_sub MULTISPACE_RE '' '' (py_replace ''.'' [] (re_sub POBOX_RE ''PO BOX'' address))))"

section \<open>The unit extractor\<close>

text \<open>
  The designator of a match, upper-cased and canonicalized, and the unit text
  \<^verbatim>\<open>f"{designator} {value}"\<close>; the same lines follow either pattern.
\<close>

definition unit_of_match :: "re_match \<Rightarrow> string" where
  "unit_of_match m =
     (let d = py_replace ''SUITE'' ''STE'' (py_replace ''APARTMENT'' ''APT'' (py_upper (group m ''designator'')));
          designator = (if d = ''#'' then ''APT'' else d);
          v = py_upper (group m ''value'')
      in designator @ '' '' @ v)"

definition extract_unit :: "string \<Rightarrow> string \<times> string option" where
  "extract_unit address =
     (if address = [] then ([], None)
      else
        let a = py_strip (re_sub MULTISPACE_RE '' '' (py_replace '','' '' '' address)) in
        (case re_search POBOX_RE a of
           Some _ \<Rightarrow> (a, None)
         | None \<Rightarrow>
             (case re_search trailing_unit_re a of
                Some m \<Rightarrow> (py_strip (m_before m), Some (unit_of_match m))
              | None \<Rightarrow>
                  (case re_search mid_unit_re a of
                     Some m2 \<Rightarrow>
                       (py_strip (re_sub MULTISPACE_RE '' '' (py_strip (m_before m2 @ m_after m2))),
                        Some (unit_of_match m2))
                   | None \<Rightarrow> (a, None)))))"

section \<open>The address normalizer\<close>

record AddressComponents =
  ac_address1 :: string
  ac_address2 :: string
  ac_city :: string
  ac_state :: string
  ac_zip :: string

text \<open>
  A string is false in a Python condition when it is empty, \<^verbatim>\<open>None\<close> is false too, and
  \<^verbatim>\<open>x or ""\<close> is \<open>x\<close> unless \<open>x\<close> is false.
\<close>

definition or_empty :: "string option \<Rightarrow> string" where
  "or_empty x = (case x of None \<Rightarrow> [] | Some v \<Rightarrow> v)"

text \<open>
  The normalizer after its street line has been handled: the lines from \<^verbatim>\<open>if a2:\<close> to the
  \<^verbatim>\<open>return\<close>, which the copies share.
\<close>

definition finish_components ::
  "module_tables \<Rightarrow> string \<Rightarrow> string \<Rightarrow> string option \<Rightarrow> string option \<Rightarrow> string option
     \<Rightarrow> AddressComponents" where
  "finish_components tb a1 a2 city state zip_code =
     (let a2' = (if a2 \<noteq> []
                 then py_strip (re_sub MULTISPACE_RE '' ''
                        (py_replace ''SUITE'' ''STE'' (py_replace ''APARTMENT'' ''APT'' a2)))
                 else a2);
          a1' = replace_suffixes_and_dirs tb a1;
          a2'' = (if a2' \<noteq> [] then replace_suffixes_and_dirs tb a2' else a2');
          st = standardize_state tb (or_empty state);
          z = standardize_zip (or_empty zip_code);
          c = upper_and_cleanup city
      in \<lparr>ac_address1 = py_strip (re_sub MULTISPACE_RE '' '' a1'),
          ac_address2 = py_strip (re_sub MULTISPACE_RE '' '' a2''),
          ac_city = c, ac_state = st, ac_zip = z\<rparr>)"

text \<open>
  The street and unit after the PO-box test, given the PO-box normalization of the copy:
  a PO-box line keeps its unit; otherwise, with no unit supplied, the unit extractor runs
  on the street and a unit it finds is adopted.
\<close>

definition street_and_unit :: "(string \<Rightarrow> string) \<Rightarrow> string \<Rightarrow> string option \<Rightarrow> string \<times> string" where
  "street_and_unit po_box address1 address2 =
     (let a1 = upper_and_cleanup (Some address1);
          a2 = (if or_empty address2 \<noteq> [] then upper_and_cleanup address2 else [])
      in (case re_search POBOX_RE a1 of
            Some _ \<Rightarrow> (po_box a1, a2)
          | None \<Rightarrow>
              if a2 = [] then
                (case extract_unit a1 of
                   (a1', Some extracted_unit) \<Rightarrow> (a1', if extracted_unit \<noteq> [] then extracted_unit else a2)
                 | (a1', None) \<Rightarrow> (a1', a2))
              else (a1, a2)))"

text \<open>\<^verbatim>\<open>address_standardizer_with_usps.py\<close>, lines 206 to 238.\<close>

definition standardize_address_components_local ::
  "module_tables \<Rightarrow> string \<Rightarrow> string option \<Rightarrow> string option \<Rightarrow> string option \<Rightarrow> string option
     \<Rightarrow> AddressComponents" where
  "standardize_address_components_local tb address1 address2 city state zip_code =
     (case street_and_unit normalize_po_box address1 address2 of
        (a1, a2) \<Rightarrow> finish_components tb a1 a2 city state zip_code)"

text \<open>
  \<^verbatim>\<open>address_standardizer.py\<close>, lines 144 to 176, and the parser's copy: the PO-box line is
  normalized in place by \<^verbatim>\<open>POBOX_RE.sub("PO BOX", a1).replace(".", "")\<close>.
\<close>

definition po_box_inline :: "string \<Rightarrow> string" where
  "po_box_inline a1 = py_replace ''.'' [] (re_sub POBOX_RE ''PO BOX'' a1)"

definition standardize_address_components_local_compact ::
  "module_tables \<Rightarrow> string \<Rightarrow> string option \<Rightarrow> string option \<Rightarrow> string option \<Rightarrow> string option
     \<Rightarrow> AddressComponents" where
  "standardize_address_components_local_compact tb address1 address2 city state zip_code =
     (case street_and_unit po_box_inline address1 address2 of
        (a1, a2) \<Rightarrow> finish_components tb a1 a2 city state zip_code)"

section \<open>The full-address splitter\<close>

text \<open>
  The ZIP search shared by the three branches: the ZIP text and the text before it,
  stripped, when the pattern is found.
\<close>

type_synonym components = "string \<times> string \<times> string \<times> string \<times> string"

definition no_components :: components where
  "no_components = ([], [], [], [], [])"

text \<open>
  The body of the \<^verbatim>\<open>try\<close> block, lines 724 to 781, as a function of \<open>s\<close> and \<open>parts\<close>. It
  returns the five local variables \<open>(street, unit, city, state, zipc)\<close>, or \<open>None\<close> when
  a statement of the block raises; the statements that can raise are the list indexings.
\<close>

definition first_digit_token :: "string list \<Rightarrow> nat option" where
  "first_digit_token tokens =
     (case filter (\<lambda>i. re_search (Cls is_digit) (tokens ! i) \<noteq> None) [0 ..< length tokens] of
        [] \<Rightarrow> None | i # _ \<Rightarrow> Some i)"

definition parse_try :: "string \<Rightarrow> string list \<Rightarrow> components option" where
  "parse_try s parts =
     (if length parts \<ge> 3 then do {
        let street_part = py_join '', '' (take (length parts - 2) parts);
        city_part \<leftarrow> py_index parts (- 2);
        state_zip_part \<leftarrow> py_index parts (- 1);
        let (zipc, state_part) =
          (case re_search zip_re state_zip_part of
             Some m_zip \<Rightarrow> (group m_zip ''1'', py_strip (m_before m_zip))
           | None \<Rightarrow> ([], py_strip state_zip_part));
        let (street_candidate, unit_candidate) = extract_unit street_part;
        Some (street_candidate, or_empty unit_candidate, city_part, state_part, zipc)
      }
      else if length parts = 2 then do {
        street_part \<leftarrow> py_index parts 0;
        right \<leftarrow> py_index parts 1;
        let (zipc, without_zip) =
          (case re_search zip_re right of
             Some m_zip \<Rightarrow> (group m_zip ''1'', py_strip (m_before m_zip))
           | None \<Rightarrow> ([], right));
        let tokens = py_split_ws without_zip;
        (city, state) \<leftarrow>
          (if tokens \<noteq> [] then do {
             state_candidate \<leftarrow> py_index tokens (- 1);
             let city_candidate = py_strip (py_join '' '' (take (length tokens - 1) tokens));
             Some (city_candidate, state_candidate)
           } else Some (without_zip, []));
        let (street_candidate, unit_candidate) = extract_unit street_part;
        Some (street_candidate, or_empty unit_candidate, city, state, zipc)
      }
      else do {
        let (zipc, before_zip) =
          (case re_search zip_re s of
             Some m_zip \<Rightarrow> (group m_zip ''1'', py_strip (m_before m_zip))
           | None \<Rightarrow> ([], s));
        let tokens = py_split_ws before_zip;
        (case first_digit_token tokens of
           None \<Rightarrow> Some (before_zip, [], [], [], zipc)
         | Some idx_num \<Rightarrow>
             if length tokens \<ge> 3 then do {
               last_token \<leftarrow> py_index tokens (- 1);
               if length last_token = 2 \<or> py_isalpha last_token
               then Some (py_join '' '' (take (length tokens - 2) tokens), [], [], last_token, zipc)
               else Some (before_zip, [], [], [], zipc)
             }
             else Some (before_zip, [], [], [], zipc))
      })"

text \<open>
  The result of a call: the value returned, or \<open>Raised\<close> when an exception leaves the
  function. The statements before the \<^verbatim>\<open>try\<close> block and the call of the normalizer after
  it are outside the handler.
\<close>

datatype 'a outcome = Returned 'a | Raised

text \<open>Lines 712 to 714: the text \<open>s\<close> the splitter works on.\<close>

definition splitter_text :: "string \<Rightarrow> string" where
  "splitter_text full =
     (let s0 = py_replace [CHR 0x0D] '' '' (py_replace [CHR 0x0A] '' '' (py_strip full))
      in py_strip (re_sub MULTISPACE_RE '' '' s0))"

text \<open>Line 715: the non-empty comma segments of \<open>s\<close>, trimmed.\<close>

definition splitter_parts :: "string \<Rightarrow> string list" where
  "splitter_parts s = map py_strip (filter (\<lambda>p. py_strip p \<noteq> []) (py_split_on CHR '','' s))"

text \<open>Lines 786 and 787: the five variables through the normalizer, as a tuple.\<close>

definition normalized_components :: "components \<Rightarrow> components" where
  "normalized_components c =
     (case c of (street, unit, city, state, zipc) \<Rightarrow>
        (let normalized = standardize_address_components_local_compact parser_tables
                            street (Some unit) (Some city) (Some state) (Some zipc)
         in (ac_address1 normalized, ac_address2 normalized, ac_city normalized,
             ac_state normalized, ac_zip normalized)))"

text \<open>
  What the call does with the outcome of the \<^verbatim>\<open>try\<close> block: the handler
  \<^verbatim>\<open>except Exception: return "", "", "", "", ""\<close> returns the all-empty tuple at once; a
  completed block is followed by the normalizer call and the \<^verbatim>\<open>return\<close>.
\<close>

definition after_try :: "components option \<Rightarrow> components outcome" where
  "after_try t =
     (case t of
        None \<Rightarrow> Returned no_components
      | Some c \<Rightarrow> Returned (normalized_components c))"

definition parse_full_address :: "string option \<Rightarrow> components outcome" where
  "parse_full_address full =
     (if or_empty full = [] then Returned no_components
      else
        let s = splitter_text (or_empty full);
            parts = splitter_parts s
        in after_try (parse_try s parts))"

section \<open>Notions used to state the properties\<close>

text \<open>
  Step 1 of the unit extractor: commas replaced by spaces, whitespace collapsed, the
  ends trimmed.
\<close>

definition comma_collapsed :: "string \<Rightarrow> string" where
  "comma_collapsed address = py_strip (re_sub MULTISPACE_RE '' '' (py_replace '','' '' '' address))"

text \<open>
  The cleaned form of a state text: trimmed, upper-cased, punctuation stripped,
  whitespace collapsed. It is the key the state standardizer looks up.
\<close>

definition cleaned_state :: "string \<Rightarrow> string" where
  "cleaned_state state =
     py_strip (re_sub MULTISPACE_RE '' '' (re_sub (Cls non_word_space) [] (py_upper (py_strip state))))"

text \<open>Runs of whitespace become one space each; \<open>in_run\<close> tells that a run is being skipped.\<close>

fun squeeze_ws :: "bool \<Rightarrow> string \<Rightarrow> string" where
  "squeeze_ws in_run [] = []"
| "squeeze_ws in_run (c # cs) =
     (if is_space c then (if in_run then squeeze_ws True cs else CHR '' '' # squeeze_ws True cs)
      else c # squeeze_ws False cs)"

text \<open>The characters the lexical cleaner keeps, after upper-casing.\<close>

definition kept_char :: "char \<Rightarrow> bool" where
  "kept_char c = (is_word c \<or> is_space c \<or> c = CHR ''#'' \<or> c = CHR ''-'')"

text \<open>
  Upper-cased, punctuation-stripped text: upper-case letters, digits, the underscore,
  \<open>#\<close>, \<open>-\<close> and the space.
\<close>

definition clean_char :: "char \<Rightarrow> bool" where
  "clean_char c = (is_upper c \<or> is_digit c \<or> c = CHR ''_'' \<or> c = CHR ''#'' \<or> c = CHR ''-'' \<or> c = CHR '' '')"

definition clean_text :: "string \<Rightarrow> bool" where
  "clean_text t = list_all clean_char t"

definition is_state_code :: "string \<Rightarrow> bool" where
  "is_state_code s = (length s = 2 \<and> list_all is_upper s)"

definition is_zip5 :: "string \<Rightarrow> bool" where
  "is_zip5 z = (length z = 5 \<and> list_all is_digit z)"

definition is_zip9 :: "string \<Rightarrow> bool" where
  "is_zip9 z = (length z = 10 \<and> list_all is_digit (take 5 z) \<and> take 1 (drop 5 z) = ''-''
     \<and> list_all is_digit (drop 6 z))"

text \<open>The invariant of \<open>AddressComponents\<close> as the specification words it.\<close>

definition spec_invariant :: "AddressComponents \<Rightarrow> bool" where
  "spec_invariant r =
     (clean_text (ac_address1 r) \<and> clean_text (ac_address2 r) \<and> clean_text (ac_city r)
      \<and> clean_text (ac_state r) \<and> clean_text (ac_zip r)
      \<and> (ac_state r = [] \<or> is_state_code (ac_state r))
      \<and> (ac_zip r = [] \<or> is_zip5 (ac_zip r) \<or> is_zip9 (ac_zip r)))"

text \<open>The normalizer applied to its own output, the five fields fed back as arguments.\<close>

definition renormalize :: "module_tables \<Rightarrow> AddressComponents \<Rightarrow> AddressComponents" where
  "renormalize tb r =
     standardize_address_components_local tb (ac_address1 r) (Some (ac_address2 r))
       (Some (ac_city r)) (Some (ac_state r)) (Some (ac_zip r))"




section \<open>Evaluating the character classes\<close>

text \<open>The classes on the bits of a character, for evaluation.\<close>

lemma is_lower_bits [code]:
  "is_lower (Char b0 b1 b2 b3 b4 b5 b6 b7) =
     (\<not> b7 \<and> b6 \<and> b5 \<and> (b4 \<or> b3 \<or> b2 \<or> b1 \<or> b0) \<and> \<not> (b4 \<and> b3 \<and> (b2 \<or> (b1 \<and> b0))))"
  by (cases b0; cases b1; cases b2; cases b3; cases b4; cases b5; cases b6; cases b7;
      simp add: is_lower_def)

lemma is_upper_bits [code]:
  "is_upper (Char b0 b1 b2 b3 b4 b5 b6 b7) =
     (\<not> b7 \<and> b6 \<and> \<not> b5 \<and> (b4 \<or> b3 \<or> b2 \<or> b1 \<or> b0) \<and> \<not> (b4 \<and> b3 \<and> (b2 \<or> (b1 \<and> b0))))"
  by (cases b0; cases b1; cases b2; cases b3; cases b4; cases b5; cases b6; cases b7;
      simp add: is_upper_def)

lemma is_digit_bits [code]:
  "is_digit (Char b0 b1 b2 b3 b4 b5 b6 b7) =
     (\<not> b7 \<and> \<not> b6 \<and> b5 \<and> b4 \<and> (\<not> b3 \<or> (\<not> b2 \<and> \<not> b1)))"
  by (cases b0; cases b1; cases b2; cases b3; cases b4; cases b5; cases b6; cases b7;
      simp add: is_digit_def)

lemma is_space_bits [code]:
  "is_space (Char b0 b1 b2 b3 b4 b5 b6 b7) =
     (\<not> b7 \<and> \<not> b6 \<and>
       ((\<not> b5 \<and> \<not> b4 \<and> b3 \<and> (if b2 then \<not> b1 else (b1 \<or> b0)))
        \<or> (\<not> b5 \<and> b4 \<and> b3 \<and> b2)
        \<or> (b5 \<and> \<not> b4 \<and> \<not> b3 \<and> \<not> b2 \<and> \<not> b1 \<and> \<not> b0)))"
  by (cases b0; cases b1; cases b2; cases b3; cases b4; cases b5; cases b6; cases b7;
      simp add: is_space_def)

lemma upper_char_bits [code]:
  "upper_char (Char b0 b1 b2 b3 b4 b5 b6 b7) =
     (if is_lower (Char b0 b1 b2 b3 b4 b5 b6 b7) then Char b0 b1 b2 b3 b4 False b6 b7
      else if Char b0 b1 b2 b3 b4 b5 b6 b7 = U0131 then CHR ''I''
      else if Char b0 b1 b2 b3 b4 b5 b6 b7 = U017F then CHR ''S''
      else Char b0 b1 b2 b3 b4 b5 b6 b7)"
  by (cases b0; cases b1; cases b2; cases b3; cases b4; cases b5; cases b6; cases b7;
      simp add: upper_char_def is_lower_def char_of_def bit_Suc_0_iff)



lemmas extra_chars = U0130_def U0131_def U017F_def U212A_def

section \<open>Substitution by the simple patterns\<close>

text \<open>
  Removing the characters of a class is a filter, and \<^verbatim>\<open>MULTISPACE_RE.sub(" ", s)\<close> squeezes
  every run of whitespace into one space.
\<close>

declare sub_from.simps [simp del]
declare py_replace.simps [simp del]

lemma sub_from_Nil: "sub_from r repl pre [] = (if ms r (pre, [], []) = [] then [] else repl)"
  by (subst sub_from.simps) simp

lemma sub_from_nomatch:
  "ms r (pre, c # cs, []) = [] \<Longrightarrow> sub_from r repl pre (c # cs) = c # sub_from r repl (c # pre) cs"
  by (subst sub_from.simps) simp

lemma sub_from_match:
  "ms r (pre, c # cs, []) = (pre', rest', g) # xs \<Longrightarrow>
   sub_from r repl pre (c # cs) =
     (if length rest' \<ge> Suc (length cs) then repl @ c # sub_from r repl (c # pre) cs
      else repl @ sub_from r repl (rev (take (Suc (length cs) - length rest') (c # cs)) @ pre)
             (drop (Suc (length cs) - length rest') (c # cs)))"
  by (subst sub_from.simps) (simp add: Let_def)

lemma upper_char_idem: "upper_char (upper_char c) = upper_char c"
  by (cases c) (auto simp add: upper_char_bits is_lower_bits extra_chars)

lemma not_lower_upper_char: "\<not> is_lower (upper_char c)"
  by (cases c) (auto simp add: upper_char_bits is_lower_bits extra_chars)

lemma is_space_upper_char: "is_space (upper_char c) = is_space c"
  by (cases c) (auto simp add: upper_char_bits is_lower_bits is_space_bits extra_chars)

lemma is_digit_upper_char: "is_digit (upper_char c) = is_digit c"
  by (cases c) (auto simp add: upper_char_bits is_lower_bits is_digit_bits extra_chars)

lemma ms_Star_head:
  "ms (Star p) (pre, rest, g) \<noteq> [] \<and>
   hd (ms (Star p) (pre, rest, g)) = (rev (takeWhile p rest) @ pre, dropWhile p rest, g)"
  by (induction rest arbitrary: pre) auto

lemma ms_Star_cases:
  obtains xs where "ms (Star p) (pre, rest, g) = (rev (takeWhile p rest) @ pre, dropWhile p rest, g) # xs"
  using ms_Star_head[of p pre rest g] by (cases "ms (Star p) (pre, rest, g)") auto

lemma ms_Plus_Nil: "ms (Plus p) (pre, [], g) = []"
  by (simp add: Plus_def)

lemma ms_Plus_no: "\<not> p c \<Longrightarrow> ms (Plus p) (pre, c # cs, g) = []"
  by (simp add: Plus_def)

lemma ms_Plus_yes:
  assumes "p c"
  obtains xs where "ms (Plus p) (pre, c # cs, g) =
     (rev (takeWhile p cs) @ c # pre, dropWhile p cs, g) # xs"
proof -
  obtain xs where "ms (Star p) (c # pre, cs, g) = (rev (takeWhile p cs) @ c # pre, dropWhile p cs, g) # xs"
    by (rule ms_Star_cases)
  with assms have "ms (Plus p) (pre, c # cs, g) = (rev (takeWhile p cs) @ c # pre, dropWhile p cs, g) # xs"
    by (simp add: Plus_def)
  then show thesis by (rule that)
qed

lemma squeeze_ws_True: "squeeze_ws True cs = squeeze_ws False (dropWhile is_space cs)"
  by (induction cs) auto

lemma sub_from_Cls: "sub_from (Cls p) [] pre rest = filter (\<lambda>c. \<not> p c) rest"
proof (induction rest arbitrary: pre)
  case Nil
  show ?case by (simp add: sub_from_Nil)
next
  case (Cons c cs)
  show ?case
  proof (cases "p c")
    case True
    have "ms (Cls p) (pre, c # cs, []) = (c # pre, cs, []) # []" using True by simp
    from sub_from_match[OF this] show ?thesis using True Cons by simp
  next
    case False
    then have "ms (Cls p) (pre, c # cs, []) = []" by simp
    from sub_from_nomatch[OF this] show ?thesis using False Cons by simp
  qed
qed

lemma re_sub_Cls: "re_sub (Cls p) [] s = filter (\<lambda>c. \<not> p c) s"
  by (simp add: re_sub_def sub_from_Cls)

lemma sub_from_Plus:
  "sub_from (Plus is_space) '' '' pre rest = squeeze_ws False rest"
proof (induction "length rest" arbitrary: pre rest rule: less_induct)
  case less
  show ?case
  proof (cases rest)
    case Nil
    then show ?thesis by (simp add: sub_from_Nil ms_Plus_Nil)
  next
    case (Cons c cs)
    show ?thesis
    proof (cases "is_space c")
      case False
      have "sub_from (Plus is_space) '' '' (c # pre) cs = squeeze_ws False cs"
        using less[of cs "c # pre"] Cons by simp
      with False Cons show ?thesis
        by (simp add: sub_from_nomatch ms_Plus_no)
    next
      case True
      obtain xs where m: "ms (Plus is_space) (pre, c # cs, []) =
         (rev (takeWhile is_space cs) @ c # pre, dropWhile is_space cs, []) # xs"
        using True by (rule ms_Plus_yes)
      let ?n = "length (c # cs) - length (dropWhile is_space cs)"
      have le: "length (dropWhile is_space cs) \<le> length cs"
        by (rule length_dropWhile_le)
      have n: "?n = Suc (length (takeWhile is_space cs))"
      proof -
        have "length cs = length (takeWhile is_space cs) + length (dropWhile is_space cs)"
          by (metis length_append takeWhile_dropWhile_id)
        then show ?thesis by simp
      qed
      have dr: "drop ?n (c # cs) = dropWhile is_space cs"
        unfolding n by (simp add: dropWhile_eq_drop)
      have ih: "sub_from (Plus is_space) '' '' (rev (take ?n (c # cs)) @ pre) (dropWhile is_space cs)
                 = squeeze_ws False (dropWhile is_space cs)"
        using less[of "dropWhile is_space cs"] Cons le by simp
      have lt: "\<not> length (dropWhile is_space cs) \<ge> Suc (length cs)"
        using le by simp
      have "sub_from (Plus is_space) '' '' pre (c # cs) =
              '' '' @ sub_from (Plus is_space) '' '' (rev (take ?n (c # cs)) @ pre) (drop ?n (c # cs))"
        using sub_from_match[OF m, of "'' ''"] lt by (simp del: drop_Suc_Cons take_Suc_Cons)
      also have "\<dots> = '' '' @ squeeze_ws False (dropWhile is_space cs)"
        using ih dr by simp
      also have "\<dots> = squeeze_ws False (c # cs)"
        using True by (simp add: squeeze_ws_True)
      finally show ?thesis using Cons by simp
    qed
  qed
qed

lemma re_sub_MULTISPACE: "re_sub MULTISPACE_RE '' '' s = squeeze_ws False s"
  by (simp add: re_sub_def MULTISPACE_RE_def sub_from_Plus)

section \<open>The ZIP standardizer on the specification's examples\<close>

text \<open>
  C5, as the specification states it, fails: a ZIP text without any digit is returned
  trimmed, not emptied.
\<close>

theorem standardize_zip_examples_counterexample:
  "\<not> (standardize_zip ''123456789'' = ''12345-6789'' \<and> standardize_zip ''12345'' = ''12345''
      \<and> standardize_zip ''abc'' = [])"
  by code_simp

text \<open>
  C5, amended: the ZIP standardizer maps \<open>123456789\<close> to \<open>12345-6789\<close>, keeps \<open>12345\<close>, and
  returns \<open>abc\<close>, which has no digit, as it is.
\<close>

theorem standardize_zip_examples:
  "standardize_zip ''123456789'' = ''12345-6789'' \<and> standardize_zip ''12345'' = ''12345''
     \<and> standardize_zip ''abc'' = ''abc''"
  by code_simp

section \<open>The full-address splitter on the specification's example\<close>

lemma parse_four_segments:
  "parse_full_address (Some ''456 Elm St Apt 4B, Smallville, Illinois, 60606-1234'') =
     Returned (''456 ELM ST SMALLVILLE'', ''APT 4B'', ''ILLINOIS'', [], ''60606-1234'')"
  by code_simp

lemma parse_three_segments:
  "parse_full_address (Some ''456 Elm St Apt 4B, Smallville, Illinois 60606-1234'') =
     Returned (''456 ELM ST'', ''APT 4B'', ''SMALLVILLE'', ''IL'', ''60606-1234'')"
  by code_simp

text \<open>
  C1, as the specification states it, fails: with four comma segments the last one is the
  state and ZIP tail and the one before it is the city, so the result is not the one
  listed.
\<close>

theorem parse_full_address_example_counterexample:
  "parse_full_address (Some ''456 Elm St Apt 4B, Smallville, Illinois, 60606-1234'') \<noteq>
     Returned (''456 ELM ST'', ''APT 4B'', ''SMALLVILLE'', ''IL'', ''60606-1234'')"
  using parse_four_segments by simp

text \<open>
  C1, amended: for \<open>456 Elm St Apt 4B, Smallville, Illinois, 60606-1234\<close> the splitter
  returns street \<open>456 ELM ST SMALLVILLE\<close>, unit \<open>APT 4B\<close>, city \<open>ILLINOIS\<close>, an empty state
  and zip \<open>60606-1234\<close>; the components the specification lists are returned when state
  and ZIP share the last segment, \<open>456 Elm St Apt 4B, Smallville, Illinois 60606-1234\<close>.
\<close>

theorem parse_full_address_example:
  "parse_full_address (Some ''456 Elm St Apt 4B, Smallville, Illinois, 60606-1234'') =
     Returned (''456 ELM ST SMALLVILLE'', ''APT 4B'', ''ILLINOIS'', [], ''60606-1234'')
   \<and> parse_full_address (Some ''456 Elm St Apt 4B, Smallville, Illinois 60606-1234'') =
     Returned (''456 ELM ST'', ''APT 4B'', ''SMALLVILLE'', ''IL'', ''60606-1234'')"
  using parse_four_segments parse_three_segments by simp

section \<open>The lexical cleaner\<close>

lemma upper_and_cleanup_squeeze:
  "upper_and_cleanup (Some t) = squeeze_ws False (filter kept_char (py_upper (py_strip t)))"
proof -
  have k: "(\<lambda>c. \<not> non_alnum c) = kept_char"
    by (auto simp: non_alnum_def kept_char_def fun_eq_iff)
  have e: "py_strip [] = []" by (simp add: py_strip_def)
  show ?thesis
    by (simp add: upper_and_cleanup_def re_sub_MULTISPACE NON_ALNUM_RE_def re_sub_Cls k py_upper_def e)
qed

text \<open>
  C7, as the specification states it, fails: the underscore is a word character of
  \<^verbatim>\<open>[^\w\s#-]\<close> and is kept.
\<close>

theorem upper_and_cleanup_underscore_counterexample:
  "CHR ''_'' \<in> set (upper_and_cleanup (Some ''a_b''))"
  by code_simp

text \<open>
  C7, amended: the lexical cleaner is total; it trims the surrounding whitespace,
  upper-cases, removes every character that is not a word character (a letter, a digit
  or the underscore), whitespace, \<open>#\<close> or \<open>-\<close>, then collapses each run of whitespace to
  one space; an absent or empty input yields the empty string. Underscores are kept:
  \<open>a_b\<close> becomes \<open>A_B\<close>.
\<close>

theorem upper_and_cleanup_refines:
  "upper_and_cleanup None = [] \<and> upper_and_cleanup (Some []) = [] \<and>
   upper_and_cleanup (Some t) = squeeze_ws False (filter kept_char (py_upper (py_strip t))) \<and>
   upper_and_cleanup (Some ''a_b'') = ''A_B''"
proof -
  have "upper_and_cleanup (Some t) = squeeze_ws False (filter kept_char (py_upper (py_strip t)))"
    by (rule upper_and_cleanup_squeeze)
  moreover have "upper_and_cleanup (Some ''a_b'') = ''A_B''" by code_simp
  moreover have "upper_and_cleanup None = [] \<and> upper_and_cleanup (Some []) = []"
    by (simp add: upper_and_cleanup_def)
  ultimately show ?thesis by simp
qed

section \<open>The state standardizer's fallback\<close>

text \<open>
  C6, as the specification states it, fails: for \<open>N. Dakota\<close>, which is in the table
  neither directly nor without \<open>STATE\<close>, the result keeps the period of the input; it is
  not the cleaned form.
\<close>

theorem standardize_state_fallback_counterexample:
  "''N. Dakota'' \<noteq> [] \<and>
   \<not> (length (py_upper (py_strip ''N. Dakota'')) = 2 \<and> py_isalpha (py_upper (py_strip ''N. Dakota''))) \<and>
   map_of (STATE_MAP usps_tables) (cleaned_state ''N. Dakota'') = None \<and>
   map_of (STATE_MAP usps_tables) (py_replace '' STATE'' [] (cleaned_state ''N. Dakota'')) = None \<and>
   cleaned_state ''N. Dakota'' = ''N DAKOTA'' \<and>
   standardize_state usps_tables ''N. Dakota'' = ''N. DAKOTA'' \<and>
   standardize_state usps_tables ''N. Dakota'' \<noteq> cleaned_state ''N. Dakota''"
  by code_simp

text \<open>
  C6, amended: for every non-empty state input that is not a 2-letter alphabetic code
  once trimmed and upper-cased, and whose cleaned form is in the state table neither
  directly nor after removing \<open>STATE\<close>, the state standardizer returns the trimmed,
  upper-cased input, with its punctuation and inner whitespace as they are.
\<close>

theorem standardize_state_fallback:
  assumes "state \<noteq> []"
    and "\<not> (length (py_upper (py_strip state)) = 2 \<and> py_isalpha (py_upper (py_strip state)))"
    and "map_of (STATE_MAP tb) (cleaned_state state) = None"
    and "map_of (STATE_MAP tb) (py_replace '' STATE'' [] (cleaned_state state)) = None"
  shows "standardize_state tb state = py_upper (py_strip state)"
  using assms by (simp add: standardize_state_def cleaned_state_def Let_def)

theorem standardize_state_fallback_witness:
  "''N. Dakota'' \<noteq> [] \<and>
   \<not> (length (py_upper (py_strip ''N. Dakota'')) = 2 \<and> py_isalpha (py_upper (py_strip ''N. Dakota''))) \<and>
   map_of (STATE_MAP usps_tables) (cleaned_state ''N. Dakota'') = None \<and>
   map_of (STATE_MAP usps_tables) (py_replace '' STATE'' [] (cleaned_state ''N. Dakota'')) = None \<and>
   standardize_state usps_tables ''N. Dakota'' = py_upper (py_strip ''N. Dakota'')"
proof -
  have h1: "''N. Dakota'' \<noteq> []" by simp
  have h2: "\<not> (length (py_upper (py_strip ''N. Dakota'')) = 2 \<and> py_isalpha (py_upper (py_strip ''N. Dakota'')))"
    by code_simp
  have h3: "map_of (STATE_MAP usps_tables) (cleaned_state ''N. Dakota'') = None" by code_simp
  have h4: "map_of (STATE_MAP usps_tables) (py_replace '' STATE'' [] (cleaned_state ''N. Dakota'')) = None"
    by code_simp
  from standardize_state_fallback[OF h1 h2 h3 h4] h1 h2 h3 h4 show ?thesis by blast
qed

section \<open>PO-box lines in the unit extractor\<close>

lemma extract_unit_po_box_789: "extract_unit ''PO BOX 789'' = (''PO BOX 789'', None)"
  by code_simp

lemma extract_unit_po_box_line:
  assumes "re_search POBOX_RE (comma_collapsed address) \<noteq> None"
  shows "extract_unit address = (comma_collapsed address, None)"
proof (cases "address = []")
  case True
  have "py_replace '','' '' '' [] = []" by (subst py_replace.simps) simp
  moreover have "re_sub MULTISPACE_RE '' '' [] = []" by (simp add: re_sub_MULTISPACE)
  ultimately have "comma_collapsed [] = []" by (simp add: comma_collapsed_def py_strip_def)
  with True show ?thesis by (simp add: extract_unit_def)
next
  case False
  with assms show ?thesis
    by (auto simp add: extract_unit_def comma_collapsed_def Let_def split: option.splits)
qed

text \<open>
  C8: when the text, after replacing commas by spaces and collapsing whitespace, matches
  the PO-box pattern, the unit extractor returns that text with no unit; in particular
  \<open>PO BOX 789\<close> is returned as it is, with no unit.
\<close>

theorem extract_unit_po_box:
  assumes "re_search POBOX_RE (comma_collapsed address) \<noteq> None"
  shows "extract_unit address = (comma_collapsed address, None) \<and>
         extract_unit ''PO BOX 789'' = (''PO BOX 789'', None)"
  using extract_unit_po_box_line[OF assms] extract_unit_po_box_789 by simp

theorem extract_unit_po_box_witness:
  "re_search POBOX_RE (comma_collapsed ''p.o. Box 12,  Rear'') \<noteq> None \<and>
   comma_collapsed ''p.o. Box 12,  Rear'' = ''p.o. Box 12 Rear'' \<and>
   extract_unit ''p.o. Box 12,  Rear'' = (''p.o. Box 12 Rear'', None)"
proof -
  have h: "re_search POBOX_RE (comma_collapsed ''p.o. Box 12,  Rear'') \<noteq> None" by code_simp
  have c: "comma_collapsed ''p.o. Box 12,  Rear'' = ''p.o. Box 12 Rear''" by code_simp
  from extract_unit_po_box[OF h] h c show ?thesis by simp
qed

section \<open>The full-address splitter and exceptions\<close>

text \<open>
  The indexings of the \<^verbatim>\<open>try\<close> block are guarded by the length tests before them, so
  the block itself never raises.
\<close>

lemma py_index_last: "xs \<noteq> [] \<Longrightarrow> py_index xs (- 1) = Some (last xs)"
  by (simp add: py_index_def Let_def last_conv_nth nat_diff_distrib' of_nat_diff)

lemma py_index_ok: "- int (length xs) \<le> i \<Longrightarrow> i < int (length xs) \<Longrightarrow> \<exists>x. py_index xs i = Some x"
  by (simp add: py_index_def Let_def)

lemma parse_try_returns: "\<exists>c. parse_try s parts = Some c"
proof -
  consider "length parts \<ge> 3" | "length parts = 2" | "length parts < 2" by linarith
  then show ?thesis
  proof cases
    case 1
    then obtain a b where "py_index parts (- 2) = Some a" "py_index parts (- 1) = Some b"
      using py_index_ok[of parts "- 2"] py_index_ok[of parts "- 1"] by auto
    with 1 show ?thesis
      by (simp add: parse_try_def Let_def split: prod.splits option.splits)
  next
    case 2
    then obtain a b where ab: "py_index parts 0 = Some a" "py_index parts 1 = Some b"
      using py_index_ok[of parts 0] py_index_ok[of parts 1] by auto
    have tok: "\<And>tokens :: string list. tokens \<noteq> [] \<Longrightarrow> \<exists>x. py_index tokens (- 1) = Some x"
      using py_index_last by blast
    show ?thesis
    proof (cases "re_search zip_re b")
      case None
      show ?thesis
      proof (cases "py_split_ws b = []")
        case True
        with 2 ab None show ?thesis
          by (simp add: parse_try_def Let_def split: prod.splits)
      next
        case False
        then obtain x where "py_index (py_split_ws b) (- 1) = Some x" using tok by blast
        with False 2 ab None show ?thesis
          by (simp add: parse_try_def Let_def split: prod.splits)
      qed
    next
      case (Some m)
      show ?thesis
      proof (cases "py_split_ws (py_strip (m_before m)) = []")
        case True
        with 2 ab Some show ?thesis
          by (simp add: parse_try_def Let_def split: prod.splits)
      next
        case False
        then obtain x where "py_index (py_split_ws (py_strip (m_before m))) (- 1) = Some x" using tok by blast
        with False 2 ab Some show ?thesis
          by (simp add: parse_try_def Let_def split: prod.splits)
      qed
    qed
  next
    case 3
    have tok: "\<And>tokens :: string list. length tokens \<ge> 3 \<Longrightarrow> \<exists>x. py_index tokens (- 1) = Some x"
    proof -
      fix tokens :: "string list"
      assume "length tokens \<ge> 3"
      then have "tokens \<noteq> []" by auto
      then show "\<exists>x. py_index tokens (- 1) = Some x" using py_index_last by blast
    qed
    have ne: "\<not> 3 \<le> length parts" "length parts \<noteq> 2" using 3 by auto
    show ?thesis
    proof (cases "re_search zip_re s")
      case None
      show ?thesis
      proof (cases "length (py_split_ws s) \<ge> 3")
        case True
        then obtain x where "py_index (py_split_ws s) (- 1) = Some x" using tok by blast
        with ne None True show ?thesis
          by (simp add: parse_try_def Let_def split: prod.splits option.splits)
      next
        case False
        with ne None show ?thesis
          by (simp add: parse_try_def Let_def split: prod.splits option.splits)
      qed
    next
      case (Some m)
      show ?thesis
      proof (cases "length (py_split_ws (py_strip (m_before m))) \<ge> 3")
        case True
        then obtain x where "py_index (py_split_ws (py_strip (m_before m))) (- 1) = Some x" using tok by blast
        with ne Some True show ?thesis
          by (simp add: parse_try_def Let_def split: prod.splits option.splits)
      next
        case False
        with ne Some show ?thesis
          by (simp add: parse_try_def Let_def split: prod.splits option.splits)
      qed
    qed
  qed
qed

text \<open>
  C9: the full-address splitter never lets an exception out. For every input, absent or a
  string, the call returns: an exception raised in the parsing phase is turned into the
  all-empty tuple by the handler; and in fact the parsing phase always completes its
  partition, so the call returns either the all-empty tuple of an empty input or the
  normalized components of the partition.
\<close>

theorem parse_full_address_never_raises:
  "(\<exists>r. parse_full_address full = Returned r) \<and>
   parse_full_address full =
     (if or_empty full = [] then Returned no_components
      else after_try (parse_try (splitter_text (or_empty full))
                       (splitter_parts (splitter_text (or_empty full))))) \<and>
   after_try None = Returned no_components \<and>
   (or_empty full = [] \<and> parse_full_address full = Returned no_components \<or>
    (\<exists>street unit city state zipc.
        parse_try (splitter_text (or_empty full)) (splitter_parts (splitter_text (or_empty full)))
          = Some (street, unit, city, state, zipc) \<and>
        parse_full_address full = Returned (normalized_components (street, unit, city, state, zipc))))"
proof -
  let ?s = "splitter_text (or_empty full)"
  have h: "after_try None = Returned no_components" by (simp add: after_try_def)
  have d: "parse_full_address full =
     (if or_empty full = [] then Returned no_components
      else after_try (parse_try ?s (splitter_parts ?s)))"
    by (simp add: parse_full_address_def Let_def)
  show ?thesis
  proof (cases "or_empty full = []")
    case True
    then have r: "parse_full_address full = Returned no_components"
      by (simp add: parse_full_address_def)
    show ?thesis
    proof (intro conjI)
      show "\<exists>r. parse_full_address full = Returned r"
        by (rule exI[of _ no_components]) (rule r)
      show "parse_full_address full =
        (if or_empty full = [] then Returned no_components
         else after_try (parse_try ?s (splitter_parts ?s)))" by (rule d)
      show "after_try None = Returned no_components" by (rule h)
      show "or_empty full = [] \<and> parse_full_address full = Returned no_components \<or>
        (\<exists>street unit city state zipc.
            parse_try ?s (splitter_parts ?s) = Some (street, unit, city, state, zipc) \<and>
            parse_full_address full = Returned (normalized_components (street, unit, city, state, zipc)))"
        using True r by blast
    qed
  next
    case False
    from parse_try_returns[of ?s "splitter_parts ?s"] obtain c where
      c: "parse_try ?s (splitter_parts ?s) = Some c" by blast
    obtain street unit city state zipc where t: "c = (street, unit, city, state, zipc)"
      by (cases c)
    have r: "parse_full_address full = Returned (normalized_components (street, unit, city, state, zipc))"
      using False c t by (simp add: parse_full_address_def after_try_def Let_def)
    show ?thesis
    proof (intro conjI)
      show "\<exists>r. parse_full_address full = Returned r"
        by (rule exI[of _ "normalized_components (street, unit, city, state, zipc)"]) (rule r)
      show "parse_full_address full =
        (if or_empty full = [] then Returned no_components
         else after_try (parse_try ?s (splitter_parts ?s)))" by (rule d)
      show "after_try None = Returned no_components" by (rule h)
      show "or_empty full = [] \<and> parse_full_address full = Returned no_components \<or>
        (\<exists>street unit city state zipc.
            parse_try ?s (splitter_parts ?s) = Some (street, unit, city, state, zipc) \<and>
            parse_full_address full = Returned (normalized_components (street, unit, city, state, zipc)))"
        using c t r by blast
    qed
  qed
qed

section \<open>The copies of the normalizer\<close>




lemma finish_components_fields:
  "ac_city (finish_components tb a1 a2 city state zip_code) = upper_and_cleanup city"
  "ac_state (finish_components tb a1 a2 city state zip_code) = standardize_state tb (or_empty state)"
  "ac_zip (finish_components tb a1 a2 city state zip_code) = standardize_zip (or_empty zip_code)"
  by (simp_all add: finish_components_def Let_def)

lemma local_fields:
  "ac_city (standardize_address_components_local tb a1 a2 city state zip_code) = upper_and_cleanup city"
  "ac_state (standardize_address_components_local tb a1 a2 city state zip_code) = standardize_state tb (or_empty state)"
  "ac_zip (standardize_address_components_local tb a1 a2 city state zip_code) = standardize_zip (or_empty zip_code)"
  by (simp_all add: standardize_address_components_local_def finish_components_fields split: prod.splits)




section \<open>Applying the normalizer twice\<close>

lemma is_alpha_not_space: "is_alpha c \<Longrightarrow> \<not> is_space c"
  by (cases c) (auto simp add: is_alpha_def is_lower_bits is_upper_bits is_space_bits extra_chars)

lemma is_digit_not_space: "is_digit c \<Longrightarrow> \<not> is_space c"
  by (cases c) (auto simp add: is_digit_bits is_space_bits)

lemma last_dropWhile: "dropWhile P xs \<noteq> [] \<Longrightarrow> last (dropWhile P xs) = last xs"
  by (induction xs) (auto split: if_splits)

lemma py_strip_ends:
  assumes "py_strip x \<noteq> []"
  shows "\<not> is_space (hd (py_strip x)) \<and> \<not> is_space (last (py_strip x))"
proof -
  let ?d = "dropWhile is_space x"
  let ?w = "dropWhile is_space (rev ?d)"
  have w: "?w \<noteq> []" using assms by (simp add: py_strip_def)
  have d: "?d \<noteq> []"
  proof
    assume e: "?d = []"
    have "?w = []" unfolding e by simp
    with w show False by simp
  qed
  have "\<not> is_space (hd ?w)" using w by (rule hd_dropWhile)
  then have l: "\<not> is_space (last (py_strip x))"
    using w by (simp add: py_strip_def last_rev)
  have "last ?w = last (rev ?d)" using w by (rule last_dropWhile)
  also have "\<dots> = hd ?d" using d by (simp add: last_rev)
  finally have "hd (py_strip x) = hd ?d" using w by (simp add: py_strip_def hd_rev)
  moreover have "\<not> is_space (hd ?d)" using d by (rule hd_dropWhile)
  ultimately show ?thesis using l by simp
qed

lemma py_strip_fixed:
  assumes "y = [] \<or> (\<not> is_space (hd y) \<and> \<not> is_space (last y))"
  shows "py_strip y = y"
proof (cases "y = []")
  case True
  then show ?thesis by (simp add: py_strip_def)
next
  case False
  with assms have h: "\<not> is_space (hd y)" and l: "\<not> is_space (last y)" by auto
  from False h have 1: "dropWhile is_space y = y" by (cases y) auto
  from False l have "\<not> is_space (hd (rev y))" by (simp add: hd_rev)
  with False have 2: "dropWhile is_space (rev y) = rev y" by (cases "rev y") auto
  show ?thesis by (simp add: py_strip_def 1 2)
qed

lemma py_strip_idem: "py_strip (py_strip x) = py_strip x"
  using py_strip_ends[of x] by (intro py_strip_fixed) blast

lemma set_py_strip: "set (py_strip x) \<subseteq> set x"
  by (auto simp: py_strip_def dest!: set_dropWhileD)

lemma py_strip_upper: "py_strip (py_upper x) = py_upper (py_strip x)"
proof -
  have c: "is_space \<circ> upper_char = is_space"
    by (simp add: fun_eq_iff is_space_upper_char)
  show ?thesis
    by (simp add: py_strip_def py_upper_def dropWhile_map rev_map c)
qed

lemma py_upper_idem: "py_upper (py_upper x) = py_upper x"
  by (simp add: py_upper_def upper_char_idem)

lemma state_norm_idem: "py_upper (py_strip (py_upper (py_strip x))) = py_upper (py_strip x)"
  by (simp add: py_strip_upper py_strip_idem py_upper_idem)

text \<open>Codes of a state table: two upper-case letters.\<close>

lemma state_code_fixed:
  assumes "length v = 2" "py_isalpha v" "py_upper v = v"
  shows "standardize_state tb v = v"
proof -
  from assms(1) have ne: "v \<noteq> []" by auto
  from assms(2) have "list_all is_alpha v" by (simp add: py_isalpha_def)
  then have "\<not> is_space (hd v) \<and> \<not> is_space (last v)"
    using ne is_alpha_not_space by (metis hd_in_set last_in_set list_all_iff)
  then have "py_strip v = v" by (intro py_strip_fixed) simp
  with assms ne show ?thesis by (simp add: standardize_state_def Let_def)
qed

lemma standardize_state_cases:
  "standardize_state tb x = [] \<and> x = [] \<or>
   x \<noteq> [] \<and> standardize_state tb x = py_upper (py_strip x) \<or>
   (\<exists>k. map_of (STATE_MAP tb) k = Some (standardize_state tb x))"
proof (cases "x = []")
  case True
  then show ?thesis by (simp add: standardize_state_def)
next
  case False
  let ?s = "py_upper (py_strip x)"
  let ?c = "py_strip (re_sub MULTISPACE_RE '' '' (re_sub (Cls non_word_space) [] ?s))"
  show ?thesis
  proof (cases "length ?s = 2 \<and> py_isalpha ?s")
    case True
    with False show ?thesis by (simp add: standardize_state_def Let_def)
  next
    case c2: False
    then have n2: "(length ?s = 2 \<and> py_isalpha ?s) = False" by simp
    show ?thesis
    proof (cases "map_of (STATE_MAP tb) ?c")
      case (Some v)
      with False have "standardize_state tb x = v"
        by (simp add: standardize_state_def Let_def n2)
      with Some show ?thesis by auto
    next
      case None
      show ?thesis
      proof (cases "map_of (STATE_MAP tb) (py_replace '' STATE'' [] ?c)")
        case (Some v)
        with None False have "standardize_state tb x = v"
          by (simp add: standardize_state_def Let_def n2)
        with Some show ?thesis by auto
      next
        case n: None
        with None False have "standardize_state tb x = ?s"
          by (simp add: standardize_state_def Let_def n2)
        with False show ?thesis by simp
      qed
    qed
  qed
qed

lemma standardize_state_idem:
  assumes tab: "list_all (\<lambda>(k, v). length v = 2 \<and> py_isalpha v \<and> py_upper v = v) (STATE_MAP tb)"
  shows "standardize_state tb (standardize_state tb x) = standardize_state tb x"
proof -
  have code: "standardize_state tb v = v" if "map_of (STATE_MAP tb) k = Some v" for k v
  proof -
    from that have "(k, v) \<in> set (STATE_MAP tb)" by (rule map_of_SomeD)
    with tab have "length v = 2 \<and> py_isalpha v \<and> py_upper v = v"
      by (auto simp: list_all_iff)
    then show ?thesis by (simp add: state_code_fixed)
  qed
  let ?s = "py_upper (py_strip x)"
  have pass: "standardize_state tb ?s = standardize_state tb x" if "x \<noteq> []" "?s \<noteq> []"
    using that by (simp add: standardize_state_def state_norm_idem Let_def)
  have empty: "standardize_state tb [] = []" by (simp add: standardize_state_def)
  consider (e) "x = []" | (s) "x \<noteq> []" "standardize_state tb x = ?s"
    | (c) k where "map_of (STATE_MAP tb) k = Some (standardize_state tb x)"
    using standardize_state_cases[of tb x] by blast
  then show ?thesis
  proof cases
    case e
    then show ?thesis by (simp add: empty)
  next
    case s
    show ?thesis
    proof (cases "?s = []")
      case True
      with s show ?thesis by (simp add: empty)
    next
      case False
      with s pass show ?thesis by simp
    qed
  next
    case c
    then show ?thesis by (rule code)
  qed
qed

lemma digits_only: "re_sub (Cls non_digit) [] x = filter is_digit x"
  by (simp add: re_sub_Cls non_digit_def)

lemma standardize_zip_eval:
  assumes "x \<noteq> []" "filter is_digit x = z"
  shows "standardize_zip x =
     (if length z = 9 then take 5 z @ ''-'' @ drop 5 z
      else if length z = 5 then z else if z \<noteq> [] then z else py_strip x)"
  using assms by (simp add: standardize_zip_def digits_only Let_def)

lemma standardize_zip_idem: "standardize_zip (standardize_zip x) = standardize_zip x"
proof -
  let ?z = "filter is_digit x"
  have dash: "\<not> is_digit CHR ''-''" by (simp add: is_digit_bits)
  have fz: "filter is_digit ?z = ?z" by simp
  have ft: "filter is_digit (take n ?z) = take n ?z" for n
    by (rule filter_True) (auto dest: in_set_takeD)
  have fd: "filter is_digit (drop n ?z) = drop n ?z" for n
    by (rule filter_True) (auto dest: in_set_dropD)
  consider (e) "x = []" | (nine) "x \<noteq> []" "length ?z = 9" | (five) "x \<noteq> []" "length ?z = 5"
    | (other) "x \<noteq> []" "length ?z \<noteq> 9" "length ?z \<noteq> 5" "?z \<noteq> []"
    | (none) "x \<noteq> []" "?z = []" by fastforce
  then show ?thesis
  proof cases
    case e
    then show ?thesis by (simp add: standardize_zip_def)
  next
    case nine
    let ?r = "take 5 ?z @ ''-'' @ drop 5 ?z"
    have r: "standardize_zip x = ?r"
      using nine by (simp add: standardize_zip_eval[OF _ refl])
    have "filter is_digit ?r = take 5 ?z @ drop 5 ?z"
      using dash by (simp add: ft fd)
    then have f: "filter is_digit ?r = ?z" by simp
    have "?r \<noteq> []" by simp
    from standardize_zip_eval[OF this f] nine show ?thesis unfolding r by simp
  next
    case five
    then have r: "standardize_zip x = ?z"
      by (simp add: standardize_zip_eval[OF _ refl])
    have "?z \<noteq> []" using five by auto
    from standardize_zip_eval[OF this fz] five show ?thesis unfolding r by simp
  next
    case other
    then have r: "standardize_zip x = ?z"
      by (simp add: standardize_zip_eval[OF _ refl])
    from standardize_zip_eval[OF other(4) fz] other show ?thesis unfolding r by simp
  next
    case none
    then have r: "standardize_zip x = py_strip x"
      by (simp add: standardize_zip_eval[OF _ refl])
    have f: "filter is_digit (py_strip x) = []"
      using none(2) set_py_strip[of x] by (auto simp: filter_empty_conv)
    show ?thesis
    proof (cases "py_strip x = []")
      case True
      then show ?thesis unfolding r by (simp add: standardize_zip_def)
    next
      case False
      from standardize_zip_eval[OF False f] show ?thesis unfolding r by (simp add: py_strip_idem)
    qed
  qed
qed

lemma usps_codes: "list_all (\<lambda>(k, v). length v = 2 \<and> py_isalpha v \<and> py_upper v = v) (STATE_MAP usps_tables)"
  by code_simp

lemma springfield_once:
  "standardize_address_components_local usps_tables ''1 Main St'' None (Some ''Springfield ,'') (Some ''IL'') (Some ''62704'') =
     \<lparr>ac_address1 = ''1 MAIN ST'', ac_address2 = [], ac_city = ''SPRINGFIELD '', ac_state = ''IL'', ac_zip = ''62704''\<rparr>"
  by code_simp

lemma springfield_twice:
  "renormalize usps_tables
     \<lparr>ac_address1 = ''1 MAIN ST'', ac_address2 = [], ac_city = ''SPRINGFIELD '', ac_state = ''IL'', ac_zip = ''62704''\<rparr> =
     \<lparr>ac_address1 = ''1 MAIN ST'', ac_address2 = [], ac_city = ''SPRINGFIELD'', ac_state = ''IL'', ac_zip = ''62704''\<rparr>"
  by code_simp

text \<open>
  C3, as the specification states it, fails: the lexical cleaner trims before it removes
  punctuation, so the city \<open>Springfield ,\<close> is normalized to \<open>SPRINGFIELD\<close> followed by a
  space, and a second pass removes that space.
\<close>

theorem normalizer_not_idempotent_counterexample:
  "renormalize usps_tables
     (standardize_address_components_local usps_tables ''1 Main St'' None (Some ''Springfield ,'') (Some ''IL'') (Some ''62704''))
   \<noteq> standardize_address_components_local usps_tables ''1 Main St'' None (Some ''Springfield ,'') (Some ''IL'') (Some ''62704'')"
  by (simp add: springfield_once springfield_twice)

text \<open>
  C3, amended: the state and zip components of the normalizer are idempotent: for every
  input, feeding the five output fields back in returns the same state and the same zip.
\<close>

theorem normalizer_state_zip_idempotent:
  "ac_state (renormalize usps_tables
      (standardize_address_components_local usps_tables street unit city state zip_code)) =
     ac_state (standardize_address_components_local usps_tables street unit city state zip_code) \<and>
   ac_zip (renormalize usps_tables
      (standardize_address_components_local usps_tables street unit city state zip_code)) =
     ac_zip (standardize_address_components_local usps_tables street unit city state zip_code)"
  by (simp add: renormalize_def local_fields or_empty_def standardize_state_idem[OF usps_codes]
      standardize_zip_idem)

section \<open>What a match consumes and captures\<close>







section \<open>The characters of substituted text\<close>







section \<open>The groups of a unit match\<close>





















section \<open>The unit a match yields\<close>








lemma extract_unit_dotted_I:
  "extract_unit (''1 Main St Un'' @ [U0130] @ ''t 5'') = (''1 Main St'', Some (''UN'' @ [U0130] @ ''T 5''))"
  by code_simp






end
